theory Spec2Isabelle
  imports Complex_Main "HOL-Library.AList"
begin

section \<open>Data model of the bus controller\<close>

text \<open>
  The controller \<^verbatim>\<open>src/server/controllers/busController.ts\<close> works on two Mongoose
  collections (\<^verbatim>\<open>Bus\<close>, \<^verbatim>\<open>Station\<close>) and on the routing service \<^verbatim>\<open>OSRMService\<close>.
  An ObjectId is represented by its \<^verbatim>\<open>toString()\<close>, a JavaScript number by a real, a
  \<^verbatim>\<open>Date\<close> by its epoch milliseconds, and \<^verbatim>\<open>null\<close>/\<^verbatim>\<open>undefined\<close> by \<open>None\<close>.
\<close>

type_synonym oid = string
type_synonym time = nat

datatype json =
    JNull
  | JBool bool
  | JNum real
  | JStr string
  | JArr "json list"
  | JObj "(string \<times> json) list"

text \<open>A thrown value; \<open>code\<close> is the \<^verbatim>\<open>code\<close> property read by \<^verbatim>\<open>createBus\<close>.\<close>

datatype exn = Exn (code: "nat option")

record 'a latlng =
  lat :: 'a
  lng :: 'a

text \<open>A GeoJSON point \<^verbatim>\<open>{ type, coordinates }\<close>.\<close>

record geo_point =
  geo_type :: string
  coordinates :: "real list"

record route =
  stations :: "oid list"
  estimatedTime :: real

record schedule =
  departureTime :: string
  arrivalTime :: string

record bus_tracking =
  speed :: "real option"
  heading :: "real option"

record bus =
  bus_id :: oid
  busNumber :: string
  routeNumber :: string
  capacity :: real
  deviceId :: string
  route :: "route option"
  schedule :: schedule
  currentLocation :: geo_point
  status :: string
  isOnRoute :: bool
  currentPassengerCount :: real
  lastUpdateTime :: "time option"
  currentStationId :: "oid option"
  trackingData :: "bus_tracking option"

record station =
  station_id :: oid
  name :: string
  location :: "geo_point option"

record db =
  Bus :: "bus list"
  Station :: "station list"

record user =
  role :: string
  stationId :: "oid option"

text \<open>The local \<^verbatim>\<open>trackingData\<close> object of \<^verbatim>\<open>updateBusLocation\<close> (lines 222-232).\<close>

record tracking_snapshot =
  td_busId :: oid
  td_location :: "real latlng"
  td_speed :: "real option"
  td_heading :: "real option"
  td_status :: string
  td_currentStation :: "oid option"
  td_nextStation :: "oid option"
  td_eta :: "int option"
  td_distanceToNext :: "int option"

text \<open>A route whose station references have been populated.\<close>

record populated_route =
  p_stations :: "station list"
  p_estimatedTime :: real

text \<open>The local \<^verbatim>\<open>trackingInfo\<close> object of \<^verbatim>\<open>getBusTrackingInfo\<close> (lines 299-313).\<close>

record tracking_info =
  ti_busId :: oid
  ti_busNumber :: string
  ti_status :: string
  ti_currentLocation :: "real option latlng"
  ti_currentStation :: "station option"
  ti_nextStation :: "oid option"
  ti_eta :: "int option"
  ti_distanceToNext :: "int option"
  ti_route :: "populated_route option"
  ti_lastUpdateTime :: "time option"

text \<open>One element of the array answered by \<^verbatim>\<open>getBusLocations\<close> (lines 423-435).\<close>

record bus_location =
  loc_deviceId :: string
  loc_busNumber :: string
  loc_routeNumber :: string
  loc_location :: "real option latlng"
  loc_speed :: real
  loc_heading :: real
  loc_status :: string
  loc_lastUpdate :: "time option"

datatype body =
    ErrorBody string
  | ErrorDetails string string
  | ErrorRequired string "string list"
  | BusBody bus
  | TrackingDataBody tracking_snapshot
  | TrackingInfoBody tracking_info
  | LocationsBody "bus_location list"

text \<open>\<^verbatim>\<open>res.status(c).json(b)\<close>; \<^verbatim>\<open>res.json(b)\<close> answers with status 200.\<close>

datatype response = Response (statusCode: nat) (payload: body)

datatype oracle_call =
    ETA_call "real option latlng" "real option latlng"
  | Distance_call "real option latlng" "real option latlng"

text \<open>
  What lies outside the file and is taken as a parameter: the two \<^verbatim>\<open>OSRMService\<close>
  queries (a promise that rejects or fulfils with a number), the outcome of
  \<^verbatim>\<open>document.save()\<close> (\<open>None\<close> when the write goes through), Mongoose's casting and
  validation of an update document together with the change it makes to a stored bus, the
  clock, and the identifier given to a new document. Identifiers are well formed, so a
  lookup by identifier finds a document or none and never throws.
\<close>

record env =
  calculateETA :: "real option latlng \<Rightarrow> real option latlng \<Rightarrow> exn + real"
  calculateDistance :: "real option latlng \<Rightarrow> real option latlng \<Rightarrow> exn + real"
  save :: "bus \<Rightarrow> exn option"
  mongo_update :: "(string \<times> json) list \<Rightarrow> exn + (bus \<Rightarrow> bus)"
  now :: time
  toISOString :: "time \<Rightarrow> string"
  new_id :: oid

text \<open>What a handler leaves behind: the answer, the database, the oracle queries issued.\<close>

record outcome =
  response :: response
  db_after :: db
  oracle_calls :: "oracle_call list"

section \<open>JavaScript and Mongoose primitives\<close>

text \<open>\<^verbatim>\<open>Array.prototype.findIndex\<close>: the first position satisfying the predicate, else -1.\<close>

fun findIndex_from :: "('a \<Rightarrow> bool) \<Rightarrow> 'a list \<Rightarrow> int \<Rightarrow> int" where
  "findIndex_from P [] i = -1"
| "findIndex_from P (x # xs) i = (if P x then i else findIndex_from P xs (i + 1))"

definition findIndex :: "('a \<Rightarrow> bool) \<Rightarrow> 'a list \<Rightarrow> int" where
  "findIndex P xs = findIndex_from P xs 0"

text \<open>\<^verbatim>\<open>xs[i]\<close>: \<^verbatim>\<open>undefined\<close> outside the array.\<close>

definition js_index :: "'a list \<Rightarrow> int \<Rightarrow> 'a option" where
  "js_index xs i = (if 0 \<le> i \<and> i < int (length xs) then Some (xs ! nat i) else None)"

text \<open>\<^verbatim>\<open>Math.round\<close>: the nearest integer, a tie going towards plus infinity.\<close>

definition Math_round :: "real \<Rightarrow> int" where
  "Math_round x = \<lfloor>x + 1 / 2\<rfloor>"

definition startsWith :: "string \<Rightarrow> string \<Rightarrow> bool" where
  "startsWith s p = (take (length p) s = p)"

text \<open>\<^verbatim>\<open>Model.findById\<close> on each collection.\<close>

definition findBusById :: "bus list \<Rightarrow> oid \<Rightarrow> bus option" where
  "findBusById bs i = find (\<lambda>b. bus_id b = i) bs"

definition findStationById :: "station list \<Rightarrow> oid \<Rightarrow> station option" where
  "findStationById ss i = find (\<lambda>s. station_id s = i) ss"

text \<open>Writing a loaded document back: the stored document with its identifier is replaced.\<close>

definition store_bus :: "bus \<Rightarrow> bus list \<Rightarrow> bus list" where
  "store_bus b bs = map (\<lambda>c. if bus_id c = bus_id b then b else c) bs"

text \<open>
  \<^verbatim>\<open>populate('route.stations')\<close>: each reference is replaced by its document; a
  reference with no document is removed from the array (Mongoose's default).
\<close>

definition populate_stations :: "station list \<Rightarrow> oid list \<Rightarrow> station list" where
  "populate_stations ss ids = List.map_filter (findStationById ss) ids"

definition populate_route :: "station list \<Rightarrow> route \<Rightarrow> populated_route" where
  "populate_route ss r =
     \<lparr>p_stations = populate_stations ss (stations r), p_estimatedTime = estimatedTime r\<rparr>"

section \<open>updateBusLocation (lines 206-281)\<close>

record location_report =
  rb_lat :: real
  rb_lng :: real
  rb_speed :: "real option"
  rb_heading :: "real option"

text \<open>Lines 217-219.\<close>

definition currentStationIndex :: "bus \<Rightarrow> int" where
  "currentStationIndex b =
     (case route b of
        None \<Rightarrow> -1
      | Some r \<Rightarrow> findIndex (\<lambda>station. Some station = currentStationId b) (stations r))"

text \<open>Line 220.\<close>

definition nextStationId :: "bus \<Rightarrow> oid option" where
  "nextStationId b =
     (if currentStationIndex b \<ge> 0
      then (case route b of None \<Rightarrow> None | Some r \<Rightarrow> js_index (stations r) (currentStationIndex b + 1))
      else None)"

text \<open>Lines 222-232.\<close>

definition initial_trackingData :: "oid \<Rightarrow> location_report \<Rightarrow> bus \<Rightarrow> tracking_snapshot" where
  "initial_trackingData i rb b =
     \<lparr>td_busId = i,
      td_location = \<lparr>lat = rb_lat rb, lng = rb_lng rb\<rparr>,
      td_speed = rb_speed rb,
      td_heading = rb_heading rb,
      td_status = status b,
      td_currentStation = currentStationId b,
      td_nextStation = None,
      td_eta = None,
      td_distanceToNext = None\<rparr>"

text \<open>
  Reading a stored point back as \<^verbatim>\<open>{ lat: coordinates[1], lng: coordinates[0] }\<close>
  (lines 241-244, 248-251, 303-306, 320-337, 427-430).
\<close>

definition latlng_of_geo :: "geo_point \<Rightarrow> real option latlng" where
  "latlng_of_geo g = \<lparr>lat = js_index (coordinates g) 1, lng = js_index (coordinates g) 0\<rparr>"

text \<open>The assignments to the loaded document before it is saved (lines 256-263).\<close>

definition relocated_bus :: "env \<Rightarrow> location_report \<Rightarrow> real \<Rightarrow> bus \<Rightarrow> bus" where
  "relocated_bus e rb eta b =
     b\<lparr>currentLocation := \<lparr>geo_type = ''Point'', coordinates = [rb_lng rb, rb_lat rb]\<rparr>,
       lastUpdateTime := Some (now e),
       route := map_option (\<lambda>r. r\<lparr>estimatedTime := of_int (Math_round (eta / 60))\<rparr>) (route b)\<rparr>"

definition failed_update_location :: response where
  "failed_update_location = Response 400 (ErrorBody ''Failed to update bus location'')"

definition updateBusLocation :: "env \<Rightarrow> db \<Rightarrow> oid \<Rightarrow> location_report \<Rightarrow> outcome" where
  "updateBusLocation e d i rb =
     (case findBusById (Bus d) i of
        None \<Rightarrow> \<lparr>response = Response 404 (ErrorBody ''Bus not found''), db_after = d, oracle_calls = []\<rparr>
      | Some b \<Rightarrow>
          let trackingData = initial_trackingData i rb b;
              unchanged = \<lparr>response = Response 200 (TrackingDataBody trackingData),
                           db_after = d, oracle_calls = []\<rparr>
          in (case nextStationId b of
                None \<Rightarrow> unchanged
              | Some nid \<Rightarrow>
                 (case findStationById (Station d) nid of
                    None \<Rightarrow> unchanged
                  | Some nextStationDoc \<Rightarrow>
                     (case location nextStationDoc of
                        None \<Rightarrow> unchanged
                      | Some loc \<Rightarrow>
                         let origin = \<lparr>lat = Some (rb_lat rb), lng = Some (rb_lng rb)\<rparr>;
                             dest = latlng_of_geo loc;
                             calls = [ETA_call origin dest, Distance_call origin dest]
                         in (case (calculateETA e origin dest, calculateDistance e origin dest) of
                               (Inr eta, Inr distance) \<Rightarrow>
                                 let b' = relocated_bus e rb eta b
                                 in (case save e b' of
                                       Some err \<Rightarrow>
                                         \<lparr>response = failed_update_location, db_after = d,
                                          oracle_calls = calls\<rparr>
                                     | None \<Rightarrow>
                                         \<lparr>response = Response 200 (TrackingDataBody
                                            (trackingData\<lparr>td_nextStation := Some (station_id nextStationDoc),
                                                          td_eta := Some (Math_round (eta / 60)),
                                                          td_distanceToNext := Some (Math_round distance)\<rparr>)),
                                          db_after = d\<lparr>Bus := store_bus b' (Bus d)\<rparr>,
                                          oracle_calls = calls\<rparr>)
                             | _ \<Rightarrow>
                                 \<lparr>response = failed_update_location, db_after = d,
                                  oracle_calls = calls\<rparr>)))))"


section \<open>updateBus (lines 78-153)\<close>

definition allowedFields :: "string list" where
  "allowedFields = [''status'', ''schedule'', ''route.estimatedTime'']"

text \<open>The test of line 127.\<close>

definition field_allowed :: "string \<Rightarrow> bool" where
  "field_allowed key =
     (key \<in> set allowedFields \<or> startsWith key ''schedule.'' \<or> startsWith key ''route.'')"

text \<open>
  Lines 126-131. An object is the list of its own properties in insertion order;
  \<^verbatim>\<open>Object.keys\<close> is the list of their names, \<^verbatim>\<open>updateData[key]\<close> the lookup and
  \<^verbatim>\<open>acc[key] = v\<close> the update in place.
\<close>

definition filteredUpdateData :: "(string \<times> json) list \<Rightarrow> (string \<times> json) list" where
  "filteredUpdateData updateData =
     foldl (\<lambda>acc key.
              if field_allowed key
              then (case map_of updateData key of
                      Some v \<Rightarrow> AList.update key v acc
                    | None \<Rightarrow> acc)
              else acc)
       [] (map fst updateData)"

text \<open>
  The condition of line 116, negated: the populated route has a station whose identifier
  is the administrator's.
\<close>

definition assigned_to_station :: "db \<Rightarrow> bus \<Rightarrow> oid \<Rightarrow> bool" where
  "assigned_to_station d b sid =
     (case route b of
        None \<Rightarrow> False
      | Some r \<Rightarrow> list_ex (\<lambda>station. station_id station = sid)
                    (populate_stations (Station d) (stations r)))"

text \<open>
  Lines 136-148: \<^verbatim>\<open>findByIdAndUpdate\<close> with \<^verbatim>\<open>runValidators\<close>. The update document is
  cast and validated first (a failure is thrown and caught at line 149); then the
  document with the identifier is changed, if there is one.
\<close>

definition applyUpdate :: "env \<Rightarrow> db \<Rightarrow> oid \<Rightarrow> (string \<times> json) list \<Rightarrow> outcome" where
  "applyUpdate e d i updateData =
     (case mongo_update e updateData of
        Inl err \<Rightarrow>
          \<lparr>response = Response 400 (ErrorBody ''Failed to update bus''), db_after = d,
           oracle_calls = []\<rparr>
      | Inr f \<Rightarrow>
          (case findBusById (Bus d) i of
             None \<Rightarrow>
               \<lparr>response = Response 404 (ErrorBody ''Bus not found''), db_after = d,
                oracle_calls = []\<rparr>
           | Some b \<Rightarrow>
               \<lparr>response = Response 200 (BusBody (f b)),
                db_after = d\<lparr>Bus := map (\<lambda>c. if bus_id c = i then f c else c) (Bus d)\<rparr>,
                oracle_calls = []\<rparr>))"

text \<open>\<open>None\<close> for the user is a request without \<^verbatim>\<open>req.user\<close>: reading its role throws.\<close>

definition updateBus :: "env \<Rightarrow> db \<Rightarrow> user option \<Rightarrow> oid \<Rightarrow> (string \<times> json) list \<Rightarrow> outcome" where
  "updateBus e d u i updateData =
     (case u of
        None \<Rightarrow>
          \<lparr>response = Response 400 (ErrorBody ''Failed to update bus''), db_after = d,
           oracle_calls = []\<rparr>
      | Some usr \<Rightarrow>
          if role usr = ''STATION_ADMIN'' then
            (case stationId usr of
               None \<Rightarrow>
                 \<lparr>response = Response 403
                    (ErrorDetails ''Station admin not associated with any station''
                       ''Please contact the main administrator to assign you to a station''),
                  db_after = d, oracle_calls = []\<rparr>
             | Some sid \<Rightarrow>
                 (case findBusById (Bus d) i of
                    None \<Rightarrow>
                      \<lparr>response = Response 404 (ErrorBody ''Bus not found''), db_after = d,
                       oracle_calls = []\<rparr>
                  | Some b \<Rightarrow>
                      if \<not> assigned_to_station d b sid then
                        \<lparr>response = Response 403
                           (ErrorDetails ''Not authorized to update this bus''
                              ''This bus is not assigned to your station''),
                         db_after = d, oracle_calls = []\<rparr>
                      else applyUpdate e d i (filteredUpdateData updateData)))
          else applyUpdate e d i updateData)"

section \<open>getBusTrackingInfo (lines 283-355)\<close>

definition failed_tracking_info :: response where
  "failed_tracking_info = Response 400 (ErrorBody ''Failed to fetch bus tracking info'')"

definition getBusTrackingInfo :: "env \<Rightarrow> db \<Rightarrow> oid \<Rightarrow> outcome" where
  "getBusTrackingInfo e d i =
     (case findBusById (Bus d) i of
        None \<Rightarrow> \<lparr>response = Response 404 (ErrorBody ''Bus not found''), db_after = d, oracle_calls = []\<rparr>
      | Some b \<Rightarrow>
          let currentStation = (case currentStationId b of
                                  None \<Rightarrow> None
                                | Some c \<Rightarrow> findStationById (Station d) c);
              proute = map_option (populate_route (Station d)) (route b);
              idx = (case proute of
                       None \<Rightarrow> -1
                     | Some r \<Rightarrow>
                         findIndex (\<lambda>station. Some (station_id station) = map_option station_id currentStation)
                           (p_stations r));
              next = (if idx \<ge> 0
                      then (case proute of None \<Rightarrow> None | Some r \<Rightarrow> js_index (p_stations r) (idx + 1))
                      else None);
              trackingInfo =
                \<lparr>ti_busId = bus_id b,
                 ti_busNumber = busNumber b,
                 ti_status = status b,
                 ti_currentLocation = latlng_of_geo (currentLocation b),
                 ti_currentStation = currentStation,
                 ti_nextStation = None,
                 ti_eta = None,
                 ti_distanceToNext = None,
                 ti_route = proute,
                 ti_lastUpdateTime = lastUpdateTime b\<rparr>;
              plain = \<lparr>response = Response 200 (TrackingInfoBody trackingInfo), db_after = d,
                       oracle_calls = []\<rparr>
          in (case next of
                None \<Rightarrow> plain
              | Some nextStation \<Rightarrow>
                 (case findStationById (Station d) (station_id nextStation) of
                    None \<Rightarrow> plain
                  | Some nextStationDoc \<Rightarrow>
                     (case location nextStationDoc of
                        None \<Rightarrow> plain
                      | Some loc \<Rightarrow>
                         let origin = latlng_of_geo (currentLocation b);
                             dest = latlng_of_geo loc;
                             calls = [ETA_call origin dest, Distance_call origin dest]
                         in (case (calculateETA e origin dest, calculateDistance e origin dest) of
                               (Inr eta, Inr distance) \<Rightarrow>
                                 \<lparr>response = Response 200 (TrackingInfoBody
                                    (trackingInfo\<lparr>ti_nextStation := Some (station_id nextStationDoc),
                                                  ti_eta := Some (Math_round (eta / 60)),
                                                  ti_distanceToNext := Some (Math_round distance)\<rparr>)),
                                  db_after = d, oracle_calls = calls\<rparr>
                             | _ \<Rightarrow>
                                 \<lparr>response = failed_tracking_info, db_after = d,
                                  oracle_calls = calls\<rparr>)))))"

section \<open>getBusLocations (lines 410-442)\<close>

text \<open>\<^verbatim>\<open>toLowerCase\<close> on the ASCII letters, which is all a status label has.\<close>

definition toLowerCase :: "string \<Rightarrow> string" where
  "toLowerCase s =
     map (\<lambda>c. if 65 \<le> (of_char c :: nat) \<and> (of_char c :: nat) \<le> 90
               then char_of (of_char c + 32 :: nat) else c) s"

text \<open>\<^verbatim>\<open>x || 0\<close> on a number that may be missing.\<close>

definition or_zero :: "real option \<Rightarrow> real" where
  "or_zero x = (case x of None \<Rightarrow> 0 | Some v \<Rightarrow> v)"

text \<open>The query of lines 418-421.\<close>

definition serves_station :: "oid \<Rightarrow> bus \<Rightarrow> bool" where
  "serves_station sid b =
     ((case route b of None \<Rightarrow> False | Some r \<Rightarrow> sid \<in> set (stations r))
      \<and> status b \<in> set [''ACTIVE'', ''INACTIVE''])"

text \<open>The mapping of lines 423-435.\<close>

definition bus_location_of :: "bus \<Rightarrow> bus_location" where
  "bus_location_of b =
     \<lparr>loc_deviceId = deviceId b,
      loc_busNumber = busNumber b,
      loc_routeNumber = routeNumber b,
      loc_location = latlng_of_geo (currentLocation b),
      loc_speed = or_zero (case trackingData b of None \<Rightarrow> None | Some t \<Rightarrow> speed t),
      loc_heading = or_zero (case trackingData b of None \<Rightarrow> None | Some t \<Rightarrow> heading t),
      loc_status = toLowerCase (status b),
      loc_lastUpdate = lastUpdateTime b\<rparr>"

definition getBusLocations :: "db \<Rightarrow> user option \<Rightarrow> outcome" where
  "getBusLocations d u =
     (case u of
        None \<Rightarrow>
          \<lparr>response = Response 500 (ErrorBody ''Failed to fetch bus locations''), db_after = d,
           oracle_calls = []\<rparr>
      | Some usr \<Rightarrow>
          (case stationId usr of
             None \<Rightarrow>
               \<lparr>response = Response 403 (ErrorBody ''Not authorized to access bus locations''),
                db_after = d, oracle_calls = []\<rparr>
           | Some sid \<Rightarrow>
               \<lparr>response = Response 200
                  (LocationsBody (map bus_location_of (filter (serves_station sid) (Bus d)))),
                db_after = d, oracle_calls = []\<rparr>))"

section \<open>createBus (lines 20-76)\<close>

text \<open>The destructured request body (lines 22-30); \<open>None\<close> is a missing property.\<close>

record create_request =
  rq_busNumber :: "string option"
  rq_routeNumber :: "string option"
  rq_capacity :: "real option"
  rq_deviceId :: "string option"
  rq_route :: "route option"
  rq_schedule :: "schedule option"
  rq_status :: "string option"

text \<open>The document built at lines 40-61 from the four required values.\<close>

definition new_bus ::
  "env \<Rightarrow> create_request \<Rightarrow> string \<Rightarrow> string \<Rightarrow> real \<Rightarrow> string \<Rightarrow> bus" where
  "new_bus e rq bn rn cap dev =
     \<lparr>bus_id = new_id e,
      busNumber = bn,
      routeNumber = rn,
      capacity = cap,
      deviceId = dev,
      route = (case rq_route rq of
                 None \<Rightarrow> Some \<lparr>stations = [], estimatedTime = 0\<rparr>
               | Some r \<Rightarrow> Some r),
      schedule = (case rq_schedule rq of
                    None \<Rightarrow> \<lparr>departureTime = toISOString e (now e),
                              arrivalTime = toISOString e (now e)\<rparr>
                  | Some s \<Rightarrow> s),
      currentLocation = \<lparr>geo_type = ''Point'', coordinates = [0, 0]\<rparr>,
      status = (case rq_status rq of
                  None \<Rightarrow> ''INACTIVE''
                | Some s \<Rightarrow> if s = [] then ''INACTIVE'' else s),
      isOnRoute = False,
      currentPassengerCount = 0,
      lastUpdateTime = Some (now e),
      currentStationId = None,
      trackingData = None\<rparr>"

definition missing_required :: response where
  "missing_required = Response 400
     (ErrorRequired ''Missing required fields''
        [''busNumber'', ''routeNumber'', ''capacity'', ''deviceId''])"

definition createBus :: "env \<Rightarrow> db \<Rightarrow> create_request \<Rightarrow> outcome" where
  "createBus e d rq =
     (case (rq_busNumber rq, rq_routeNumber rq, rq_capacity rq, rq_deviceId rq) of
        (Some bn, Some rn, Some cap, Some dev) \<Rightarrow>
          if bn = [] \<or> rn = [] \<or> cap = 0 \<or> dev = [] then
            \<lparr>response = missing_required, db_after = d, oracle_calls = []\<rparr>
          else
            (let b = new_bus e rq bn rn cap dev
             in (case save e b of
                   None \<Rightarrow>
                     \<lparr>response = Response 201 (BusBody b),
                      db_after = d\<lparr>Bus := Bus d @ [b]\<rparr>, oracle_calls = []\<rparr>
                 | Some err \<Rightarrow>
                     if code err = Some 11000 then
                       \<lparr>response = Response 400
                          (ErrorBody ''Bus number or device ID already exists''),
                        db_after = d, oracle_calls = []\<rparr>
                     else
                       \<lparr>response = Response 400 (ErrorBody ''Failed to create bus''),
                        db_after = d, oracle_calls = []\<rparr>))
      | _ \<Rightarrow> \<lparr>response = missing_required, db_after = d, oracle_calls = []\<rparr>)"

section \<open>Notions used to state the properties\<close>

text \<open>The stop sequence of a bus; a bus without a route has none.\<close>

definition route_stations :: "bus \<Rightarrow> oid list" where
  "route_stations b = (case route b of None \<Rightarrow> [] | Some r \<Rightarrow> stations r)"

text \<open>
  The guards of lines 234-236 taken together: the stored location of the next station, when
  there is a next station, its document exists and the document has a location.
\<close>

definition next_stop_location :: "db \<Rightarrow> bus \<Rightarrow> geo_point option" where
  "next_stop_location d b =
     (case nextStationId b of
        None \<Rightarrow> None
      | Some nid \<Rightarrow>
          (case findStationById (Station d) nid of
             None \<Rightarrow> None
           | Some nextStationDoc \<Rightarrow> location nextStationDoc))"

text \<open>
  The usual range of a latitude and a longitude in degrees. The controller has no such
  test; the predicate only serves to speak about reports outside the range.
\<close>

definition in_valid_range :: "real \<Rightarrow> real \<Rightarrow> bool" where
  "in_valid_range la lo = (-90 \<le> la \<and> la \<le> 90 \<and> -180 \<le> lo \<and> lo \<le> 180)"

text \<open>Reading the JSON payload of an answer.\<close>

fun snapshot_of :: "response \<Rightarrow> tracking_snapshot option" where
  "snapshot_of (Response c (TrackingDataBody t)) = Some t"
| "snapshot_of (Response c other) = None"

fun tracking_info_of :: "response \<Rightarrow> tracking_info option" where
  "tracking_info_of (Response c (TrackingInfoBody t)) = Some t"
| "tracking_info_of (Response c other) = None"

fun locations_of :: "response \<Rightarrow> bus_location list" where
  "locations_of (Response c (LocationsBody ls)) = ls"
| "locations_of (Response c other) = []"

fun created_bus_of :: "response \<Rightarrow> bus option" where
  "created_bus_of (Response c (BusBody b)) = Some b"
| "created_bus_of (Response c other) = None"

section \<open>A concrete route, bus and environment\<close>

text \<open>
  Three stops A, B, C at (lat, lng) = (0, 0), (0, 1), (0, 2), stored as \<^verbatim>\<open>[lng, lat]\<close>, and
  one bus on the route A, B, C standing at B.
\<close>

definition stopA :: station where
  "stopA = \<lparr>station_id = ''StopA'', name = ''Stop A'',
             location = Some \<lparr>geo_type = ''Point'', coordinates = [0, 0]\<rparr>\<rparr>"

definition stopB :: station where
  "stopB = \<lparr>station_id = ''StopB'', name = ''Stop B'',
             location = Some \<lparr>geo_type = ''Point'', coordinates = [1, 0]\<rparr>\<rparr>"

definition stopC :: station where
  "stopC = \<lparr>station_id = ''StopC'', name = ''Stop C'',
             location = Some \<lparr>geo_type = ''Point'', coordinates = [2, 0]\<rparr>\<rparr>"

definition demo_bus :: bus where
  "demo_bus =
     \<lparr>bus_id = ''bus1'', busNumber = ''B-1'', routeNumber = ''R-1'', capacity = 40,
      deviceId = ''dev-1'',
      route = Some \<lparr>stations = [''StopA'', ''StopB'', ''StopC''], estimatedTime = 0\<rparr>,
      schedule = \<lparr>departureTime = ''08:00'', arrivalTime = ''09:00''\<rparr>,
      currentLocation = \<lparr>geo_type = ''Point'', coordinates = [0, 0]\<rparr>,
      status = ''ACTIVE'', isOnRoute = True, currentPassengerCount = 0,
      lastUpdateTime = Some 1000, currentStationId = Some ''StopB'', trackingData = None\<rparr>"

definition demo_db :: db where
  "demo_db = \<lparr>Bus = [demo_bus], Station = [stopA, stopB, stopC]\<rparr>"

text \<open>The same bus standing at the last stop of its route.\<close>

definition terminal_db :: db where
  "terminal_db = \<lparr>Bus = [demo_bus\<lparr>currentStationId := Some ''StopC''\<rparr>],
                  Station = [stopA, stopB, stopC]\<rparr>"

text \<open>An update that understands one path, \<^verbatim>\<open>status\<close>, and wants a string there.\<close>

definition demo_update :: "(string \<times> json) list \<Rightarrow> exn + (bus \<Rightarrow> bus)" where
  "demo_update upd =
     (case map_of upd ''status'' of
        None \<Rightarrow> Inr (\<lambda>b. b)
      | Some (JStr s) \<Rightarrow> Inr (\<lambda>b. b\<lparr>status := s\<rparr>)
      | Some _ \<Rightarrow> Inl (Exn None))"

text \<open>Both queries answer (300 seconds, 1500 metres) and every write goes through.\<close>

definition demo_env :: env where
  "demo_env =
     \<lparr>calculateETA = (\<lambda>_ _. Inr 300), calculateDistance = (\<lambda>_ _. Inr 1500),
      save = (\<lambda>_. None), mongo_update = demo_update, now = 2000,
      toISOString = (\<lambda>_. ''1970-01-01T00:00:02.000Z''), new_id = ''bus2''\<rparr>"

text \<open>The duration query is rejected, the distance query answers 800 metres.\<close>

definition eta_down_env :: env where
  "eta_down_env =
     demo_env\<lparr>calculateETA := (\<lambda>_ _. Inl (Exn None)), calculateDistance := (\<lambda>_ _. Inr 800)\<rparr>"

definition demo_report :: location_report where
  "demo_report = \<lparr>rb_lat = 3, rb_lng = 7, rb_speed = Some 30, rb_heading = Some 90\<rparr>"

definition far_report :: location_report where
  "far_report = \<lparr>rb_lat = 91, rb_lng = 181, rb_speed = None, rb_heading = None\<rparr>"

definition station_admin :: user where
  "station_admin = \<lparr>role = ''STATION_ADMIN'', stationId = Some ''StopB''\<rparr>"

definition outsider_admin :: user where
  "outsider_admin = \<lparr>role = ''STATION_ADMIN'', stationId = Some ''StopZ''\<rparr>"

definition system_admin :: user where
  "system_admin = \<lparr>role = ''SYSTEM_ADMIN'', stationId = None\<rparr>"

definition demo_fields :: "(string \<times> json) list" where
  "demo_fields =
     [(''status'', JStr ''INACTIVE''), (''capacity'', JNum 99),
      (''schedule.departureTime'', JStr ''10:00''), (''routeNumber'', JStr ''R-9'')]"

definition demo_request :: create_request where
  "demo_request =
     \<lparr>rq_busNumber = Some ''B-2'', rq_routeNumber = Some ''R-2'', rq_capacity = Some 52,
      rq_deviceId = Some ''dev-2'', rq_route = None, rq_schedule = None, rq_status = None\<rparr>"

section \<open>Facts about the primitives\<close>

lemmas demo_defs = demo_db_def terminal_db_def demo_bus_def stopA_def stopB_def stopC_def
  demo_env_def eta_down_env_def demo_report_def far_report_def

lemmas location_defs = updateBusLocation_def findBusById_def findStationById_def
  nextStationId_def currentStationIndex_def findIndex_def js_index_def initial_trackingData_def
  latlng_of_geo_def relocated_bus_def store_bus_def failed_update_location_def Let_def

lemmas info_defs = getBusTrackingInfo_def populate_route_def populate_stations_def
  failed_tracking_info_def getBusLocations_def serves_station_def bus_location_of_def
  or_zero_def toLowerCase_def

lemma findIndex_from_none:
  "\<forall>x\<in>set xs. \<not> P x \<Longrightarrow> findIndex_from P xs k = -1"
  by (induction xs arbitrary: k) auto

lemma findIndex_from_append:
  "\<forall>x\<in>set xs. \<not> P x \<Longrightarrow>
     findIndex_from P (xs @ ys) k = findIndex_from P ys (k + int (length xs))"
  by (induction xs arbitrary: k) (auto simp: algebra_simps)

lemma findIndex_absent: "\<forall>x\<in>set xs. \<not> P x \<Longrightarrow> findIndex P xs = -1"
  by (simp add: findIndex_def findIndex_from_none)

lemma findIndex_last_only:
  assumes "xs \<noteq> []" "P (last xs)" "\<forall>x\<in>set (butlast xs). \<not> P x"
  shows "findIndex P xs = int (length xs) - 1"
proof -
  have "findIndex_from P (butlast xs @ [last xs]) 0
      = findIndex_from P [last xs] (0 + int (length (butlast xs)))"
    using assms(3) by (rule findIndex_from_append)
  moreover from assms(1) have "int (length (butlast xs)) = int (length xs) - 1"
    by (cases xs) simp_all
  ultimately show ?thesis using assms(1,2) by (simp add: findIndex_def)
qed

text \<open>\<^verbatim>\<open>Math.round\<close> is within one half of its argument.\<close>

lemma Math_round_nearest: "\<bar>real_of_int (Math_round x) - x\<bar> \<le> 1 / 2"
  unfolding Math_round_def by linarith

lemma findBusById_id: "findBusById bs i = Some b \<Longrightarrow> bus_id b = i"
  by (auto simp: findBusById_def find_Some_iff)

lemma findBusById_mem: "findBusById bs i = Some b \<Longrightarrow> b \<in> set bs"
  by (auto simp: findBusById_def find_Some_iff)

lemma findBusById_store:
  "findBusById bs i = Some b \<Longrightarrow> bus_id b' = i \<Longrightarrow> findBusById (store_bus b' bs) i = Some b'"
  by (induction bs) (auto simp: findBusById_def store_bus_def split: if_splits)

lemma findStationById_id: "findStationById ss i = Some s \<Longrightarrow> station_id s = i"
  by (auto simp: findStationById_def find_Some_iff)

lemma populated_station_on_route:
  "s \<in> set (populate_stations ss ids) \<Longrightarrow> station_id s \<in> set ids"
  by (induction ids)
    (auto simp: populate_stations_def split: option.splits dest: findStationById_id)

lemma latlng_of_stored_pair:
  "latlng_of_geo \<lparr>geo_type = t, coordinates = [x, y]\<rparr> = \<lparr>lat = Some y, lng = Some x\<rparr>"
  by (simp add: latlng_of_geo_def js_index_def)

section \<open>Route progress\<close>

lemma nextStationId_absent:
  "currentStationId b = None \<Longrightarrow> nextStationId b = None"
  by (simp add: nextStationId_def currentStationIndex_def findIndex_absent split: option.splits)

lemma nextStationId_not_found:
  assumes "currentStationId b = Some c" "c \<notin> set (route_stations b)"
  shows "nextStationId b = None"
proof -
  have "currentStationIndex b = -1"
    using assms
    by (auto simp: currentStationIndex_def route_stations_def intro!: findIndex_absent
        split: option.splits)
  then show ?thesis by (simp add: nextStationId_def)
qed

lemma nextStationId_last:
  assumes "currentStationId b = Some c" "route_stations b \<noteq> []" "c = last (route_stations b)"
    "c \<notin> set (butlast (route_stations b))"
  shows "nextStationId b = None"
proof (cases "route b")
  case None
  then show ?thesis by (simp add: nextStationId_def split: option.splits)
next
  case (Some r)
  with assms
  have "findIndex (\<lambda>station. Some station = currentStationId b) (stations r)
      = int (length (stations r)) - 1"
    by (intro findIndex_last_only) (auto simp: route_stations_def)
  with Some show ?thesis
    by (simp add: nextStationId_def currentStationIndex_def js_index_def)
qed

lemma demo_bus_found: "findBusById (Bus demo_db) ''bus1'' = Some demo_bus"
  by (simp add: demo_db_def demo_bus_def findBusById_def)

lemma demo_bus_next: "nextStationId demo_bus = Some ''StopC''"
  by (simp add: demo_bus_def nextStationId_def currentStationIndex_def findIndex_def js_index_def)

lemma demo_next_doc: "findStationById (Station demo_db) ''StopC'' = Some stopC"
  by (simp add: demo_db_def stopA_def stopB_def stopC_def findStationById_def)

lemma demo_next_location:
  "location stopC = Some \<lparr>geo_type = ''Point'', coordinates = [2, 0]\<rparr>"
  by (simp add: stopC_def)

lemma terminal_found:
  "findBusById (Bus terminal_db) ''bus1'' = Some (demo_bus\<lparr>currentStationId := Some ''StopC''\<rparr>)"
  by (simp add: terminal_db_def demo_bus_def findBusById_def)

text \<open>
  Claim C3. When the bus of a position report has no current-stop reference, or one that is
  not in the stop sequence of its route (index -1), or one that is the last stop of the
  sequence, \<^verbatim>\<open>updateBusLocation\<close> answers with status 200 and a snapshot whose
  \<^verbatim>\<open>nextStation\<close>, \<^verbatim>\<open>eta\<close> and \<^verbatim>\<open>distanceToNext\<close> are null, and no oracle query is issued.
  The last stop is found by \<^verbatim>\<open>findIndex\<close>, that is at its first occurrence, so "the last
  stop" is the stop at the last position that occurs nowhere before it.
\<close>

theorem C3_no_next_stop:
  assumes "findBusById (Bus d) i = Some b"
    and "currentStationId b = None
       \<or> (\<exists>c. currentStationId b = Some c \<and> c \<notin> set (route_stations b))
       \<or> (\<exists>c. currentStationId b = Some c \<and> route_stations b \<noteq> []
              \<and> c = last (route_stations b) \<and> c \<notin> set (butlast (route_stations b)))"
  shows "\<exists>snap. response (updateBusLocation e d i rb) = Response 200 (TrackingDataBody snap)
           \<and> td_nextStation snap = None \<and> td_eta snap = None \<and> td_distanceToNext snap = None
           \<and> oracle_calls (updateBusLocation e d i rb) = []"
proof -
  from assms(2) have "nextStationId b = None"
    using nextStationId_absent nextStationId_not_found nextStationId_last by blast
  with assms(1) show ?thesis
    by (simp add: updateBusLocation_def initial_trackingData_def)
qed

theorem C3_witness:
  "findBusById (Bus terminal_db) ''bus1'' = Some (demo_bus\<lparr>currentStationId := Some ''StopC''\<rparr>)
   \<and> currentStationId (demo_bus\<lparr>currentStationId := Some ''StopC''\<rparr>) = Some ''StopC''
   \<and> last (route_stations (demo_bus\<lparr>currentStationId := Some ''StopC''\<rparr>)) = ''StopC''
   \<and> statusCode (response (updateBusLocation demo_env terminal_db ''bus1'' demo_report)) = 200
   \<and> map_option td_nextStation
        (snapshot_of (response (updateBusLocation demo_env terminal_db ''bus1'' demo_report)))
       = Some None
   \<and> map_option td_eta
        (snapshot_of (response (updateBusLocation demo_env terminal_db ''bus1'' demo_report)))
       = Some None
   \<and> map_option td_distanceToNext
        (snapshot_of (response (updateBusLocation demo_env terminal_db ''bus1'' demo_report)))
       = Some None
   \<and> oracle_calls (updateBusLocation demo_env terminal_db ''bus1'' demo_report) = []"
proof -
  let ?b = "demo_bus\<lparr>currentStationId := Some ''StopC''\<rparr>"
  have cur: "currentStationId ?b = Some ''StopC''" by simp
  have rs: "route_stations ?b = [''StopA'', ''StopB'', ''StopC'']"
    by (simp add: route_stations_def demo_bus_def)
  have last_stop: "\<exists>c. currentStationId ?b = Some c \<and> route_stations ?b \<noteq> []
      \<and> c = last (route_stations ?b) \<and> c \<notin> set (butlast (route_stations ?b))"
    using cur rs by simp
  from C3_no_next_stop [OF terminal_found disjI2 [OF disjI2 [OF last_stop]],
      of demo_env demo_report]
  show ?thesis using terminal_found rs by auto
qed

section \<open>Estimation\<close>

text \<open>
  Claim C6. When the next stop of the bus resolves to a station with a location, both oracle
  queries fulfil with \<open>durationSeconds\<close> and \<open>distanceMeters\<close>, and the document
  is saved, the snapshot answered by \<^verbatim>\<open>updateBusLocation\<close> has
  \<^verbatim>\<open>eta = Math.round(durationSeconds / 60)\<close> and \<^verbatim>\<open>distanceToNext = Math.round(distanceMeters)\<close>;
  for 300 seconds and 1500 metres these are 5 and 1500. Numbers are reals here.
\<close>

theorem C6_eta_and_distance_rounded:
  assumes "findBusById (Bus d) i = Some b"
    and "nextStationId b = Some nid"
    and "findStationById (Station d) nid = Some nextStationDoc"
    and "location nextStationDoc = Some loc"
    and "calculateETA e \<lparr>lat = Some (rb_lat rb), lng = Some (rb_lng rb)\<rparr> (latlng_of_geo loc)
           = Inr durationSeconds"
    and "calculateDistance e \<lparr>lat = Some (rb_lat rb), lng = Some (rb_lng rb)\<rparr> (latlng_of_geo loc)
           = Inr distanceMeters"
    and "save e (relocated_bus e rb durationSeconds b) = None"
  shows "\<exists>snap. response (updateBusLocation e d i rb) = Response 200 (TrackingDataBody snap)
           \<and> td_nextStation snap = Some (station_id nextStationDoc)
           \<and> td_eta snap = Some (Math_round (durationSeconds / 60))
           \<and> td_distanceToNext snap = Some (Math_round distanceMeters)
           \<and> (durationSeconds = 300 \<and> distanceMeters = 1500
                \<longrightarrow> td_eta snap = Some 5 \<and> td_distanceToNext snap = Some 1500)"
proof -
  have "Math_round (300 / 60) = 5" "Math_round 1500 = 1500"
    by (simp_all add: Math_round_def)
  with assms show ?thesis
    by (auto simp: updateBusLocation_def Let_def)
qed

theorem C6_witness:
  "findBusById (Bus demo_db) ''bus1'' = Some demo_bus
   \<and> nextStationId demo_bus = Some ''StopC''
   \<and> findStationById (Station demo_db) ''StopC'' = Some stopC
   \<and> map_option td_nextStation
        (snapshot_of (response (updateBusLocation demo_env demo_db ''bus1'' demo_report)))
       = Some (Some ''StopC'')
   \<and> map_option td_eta
        (snapshot_of (response (updateBusLocation demo_env demo_db ''bus1'' demo_report)))
       = Some (Some 5)
   \<and> map_option td_distanceToNext
        (snapshot_of (response (updateBusLocation demo_env demo_db ''bus1'' demo_report)))
       = Some (Some 1500)"
proof -
  have eta: "calculateETA demo_env \<lparr>lat = Some (rb_lat demo_report), lng = Some (rb_lng demo_report)\<rparr>
               (latlng_of_geo \<lparr>geo_type = ''Point'', coordinates = [2, 0]\<rparr>) = Inr 300"
    by (simp add: demo_env_def)
  have dist: "calculateDistance demo_env
                \<lparr>lat = Some (rb_lat demo_report), lng = Some (rb_lng demo_report)\<rparr>
                (latlng_of_geo \<lparr>geo_type = ''Point'', coordinates = [2, 0]\<rparr>) = Inr 1500"
    by (simp add: demo_env_def)
  have saved: "save demo_env (relocated_bus demo_env demo_report 300 demo_bus) = None"
    by (simp add: demo_env_def)
  have sid: "station_id stopC = ''StopC''"
    by (simp add: stopC_def)
  from C6_eta_and_distance_rounded [OF demo_bus_found demo_bus_next demo_next_doc
      demo_next_location eta dist saved]
  show ?thesis
    using demo_bus_found demo_bus_next demo_next_doc sid by auto
qed

text \<open>
  Claim C1 says that a failed oracle query leaves its own field null, the other field
  populated and the request successful. At the bus standing at B, with the duration query
  rejected and the distance query answering 800 metres, the request is answered with
  status 400 and carries no snapshot at all.
\<close>

theorem C1_counterexample:
  "nextStationId demo_bus = Some ''StopC''
   \<and> calculateETA eta_down_env \<lparr>lat = Some 3, lng = Some 7\<rparr> \<lparr>lat = Some 0, lng = Some 2\<rparr>
       = Inl (Exn None)
   \<and> calculateDistance eta_down_env \<lparr>lat = Some 3, lng = Some 7\<rparr> \<lparr>lat = Some 0, lng = Some 2\<rparr>
       = Inr 800
   \<and> statusCode (response (updateBusLocation eta_down_env demo_db ''bus1'' demo_report)) = 400
   \<and> snapshot_of (response (updateBusLocation eta_down_env demo_db ''bus1'' demo_report)) = None"
  by (simp add: demo_defs location_defs)

text \<open>
  Claim C1, amended. When the next stop of the bus resolves to a station with a location
  and the duration query or the distance query is rejected, both queries have been issued
  once and \<^verbatim>\<open>updateBusLocation\<close> answers the whole request with status 400 and the error
  \<^verbatim>\<open>Failed to update bus location\<close>: no snapshot is answered, so neither field is reported.
\<close>

theorem C1_oracle_failure_fails_request:
  assumes "findBusById (Bus d) i = Some b"
    and "nextStationId b = Some nid"
    and "findStationById (Station d) nid = Some nextStationDoc"
    and "location nextStationDoc = Some loc"
    and "isl (calculateETA e \<lparr>lat = Some (rb_lat rb), lng = Some (rb_lng rb)\<rparr> (latlng_of_geo loc))
       \<or> isl (calculateDistance e \<lparr>lat = Some (rb_lat rb), lng = Some (rb_lng rb)\<rparr>
                (latlng_of_geo loc))"
  shows "response (updateBusLocation e d i rb)
           = Response 400 (ErrorBody ''Failed to update bus location'')
       \<and> oracle_calls (updateBusLocation e d i rb) =
           [ETA_call \<lparr>lat = Some (rb_lat rb), lng = Some (rb_lng rb)\<rparr> (latlng_of_geo loc),
            Distance_call \<lparr>lat = Some (rb_lat rb), lng = Some (rb_lng rb)\<rparr> (latlng_of_geo loc)]"
  using assms
  by (auto simp: updateBusLocation_def Let_def failed_update_location_def isl_def
      split: sum.splits)

theorem C1_witness:
  "isl (calculateETA eta_down_env
          \<lparr>lat = Some (rb_lat demo_report), lng = Some (rb_lng demo_report)\<rparr>
          (latlng_of_geo \<lparr>geo_type = ''Point'', coordinates = [2, 0]\<rparr>))
   \<and> response (updateBusLocation eta_down_env demo_db ''bus1'' demo_report)
       = Response 400 (ErrorBody ''Failed to update bus location'')
   \<and> length (oracle_calls (updateBusLocation eta_down_env demo_db ''bus1'' demo_report)) = 2"
proof -
  have down: "isl (calculateETA eta_down_env
          \<lparr>lat = Some (rb_lat demo_report), lng = Some (rb_lng demo_report)\<rparr>
          (latlng_of_geo \<lparr>geo_type = ''Point'', coordinates = [2, 0]\<rparr>))"
    by (simp add: eta_down_env_def demo_env_def)
  from C1_oracle_failure_fails_request [OF demo_bus_found demo_bus_next demo_next_doc
      demo_next_location disjI1 [OF down]]
  show ?thesis using down by simp
qed

text \<open>
  Claim C7 says that a report with coordinates out of range fails with a validation error
  before any oracle query. The report (lat 91, lng 181) for the bus standing at B is
  answered with status 200 after two oracle queries, and for the bus standing at the last
  stop it is answered with status 200 as well.
\<close>

theorem C7_counterexample:
  "\<not> in_valid_range (rb_lat far_report) (rb_lng far_report)
   \<and> statusCode (response (updateBusLocation demo_env demo_db ''bus1'' far_report)) = 200
   \<and> length (oracle_calls (updateBusLocation demo_env demo_db ''bus1'' far_report)) = 2
   \<and> statusCode (response (updateBusLocation demo_env terminal_db ''bus1'' far_report)) = 200"
  by (simp add: demo_defs location_defs in_valid_range_def)

text \<open>
  Claim C7, amended. \<^verbatim>\<open>updateBusLocation\<close> does not validate the range of the reported
  coordinates. For a report out of range and an existing bus: when no next stop with a
  location resolves, the answer is status 200 with the reported position in the snapshot
  and no oracle query; when one resolves, both oracle queries are issued with the reported
  coordinates as origin.
\<close>

theorem C7_out_of_range_not_validated:
  assumes "\<not> in_valid_range (rb_lat rb) (rb_lng rb)"
    and "findBusById (Bus d) i = Some b"
  shows "(next_stop_location d b = None \<longrightarrow>
            response (updateBusLocation e d i rb)
              = Response 200 (TrackingDataBody (initial_trackingData i rb b))
            \<and> oracle_calls (updateBusLocation e d i rb) = [])
       \<and> (\<forall>loc. next_stop_location d b = Some loc \<longrightarrow>
            oracle_calls (updateBusLocation e d i rb) =
              [ETA_call \<lparr>lat = Some (rb_lat rb), lng = Some (rb_lng rb)\<rparr> (latlng_of_geo loc),
               Distance_call \<lparr>lat = Some (rb_lat rb), lng = Some (rb_lng rb)\<rparr>
                 (latlng_of_geo loc)])
       \<and> td_location (initial_trackingData i rb b) = \<lparr>lat = rb_lat rb, lng = rb_lng rb\<rparr>"
  using assms(2)
  by (auto simp: updateBusLocation_def next_stop_location_def Let_def initial_trackingData_def
      split: option.splits sum.splits)

theorem C7_witness:
  "\<not> in_valid_range (rb_lat far_report) (rb_lng far_report)
   \<and> next_stop_location demo_db demo_bus = Some \<lparr>geo_type = ''Point'', coordinates = [2, 0]\<rparr>
   \<and> oracle_calls (updateBusLocation demo_env demo_db ''bus1'' far_report) =
       [ETA_call \<lparr>lat = Some 91, lng = Some 181\<rparr> \<lparr>lat = Some 0, lng = Some 2\<rparr>,
        Distance_call \<lparr>lat = Some 91, lng = Some 181\<rparr> \<lparr>lat = Some 0, lng = Some 2\<rparr>]"
proof -
  have far: "\<not> in_valid_range (rb_lat far_report) (rb_lng far_report)"
    by (simp add: in_valid_range_def far_report_def)
  have nxt: "next_stop_location demo_db demo_bus
      = Some \<lparr>geo_type = ''Point'', coordinates = [2, 0]\<rparr>"
    by (simp add: next_stop_location_def demo_bus_next demo_next_doc demo_next_location)
  from C7_out_of_range_not_validated [OF far demo_bus_found, of demo_env]
  show ?thesis using far nxt
    by (simp add: far_report_def latlng_of_geo_def js_index_def)
qed

section \<open>Recording the position\<close>

lemma relocated_bus_id: "bus_id (relocated_bus e rb eta b) = bus_id b"
  by (simp add: relocated_bus_def)

lemma relocated_bus_coordinates:
  "coordinates (currentLocation (relocated_bus e rb eta b)) = [rb_lng rb, rb_lat rb]"
  by (simp add: relocated_bus_def)

lemma relocated_bus_time: "lastUpdateTime (relocated_bus e rb eta b) = Some (now e)"
  by (simp add: relocated_bus_def)

lemma relocated_bus_read_back:
  "latlng_of_geo (currentLocation (relocated_bus e rb eta b))
     = \<lparr>lat = Some (rb_lat rb), lng = Some (rb_lng rb)\<rparr>"
  by (simp add: relocated_bus_def latlng_of_stored_pair)

text \<open>An answer that names a next station comes from the branch that saves the document.\<close>

lemma updateBusLocation_persisted:
  assumes "response (updateBusLocation e d i rb) = Response 200 (TrackingDataBody snap)"
    and "td_nextStation snap = Some n"
  shows "\<exists>b eta. findBusById (Bus d) i = Some b
           \<and> db_after (updateBusLocation e d i rb)
               = d\<lparr>Bus := store_bus (relocated_bus e rb eta b) (Bus d)\<rparr>"
  using assms
  by (auto simp: updateBusLocation_def Let_def initial_trackingData_def failed_update_location_def
      split: option.splits sum.splits)

lemma updateBusLocation_recorded:
  assumes "response (updateBusLocation e d i rb) = Response 200 (TrackingDataBody snap)"
    and "td_nextStation snap = Some n"
  shows "\<exists>b'. findBusById (Bus (db_after (updateBusLocation e d i rb))) i = Some b'
           \<and> coordinates (currentLocation b') = [rb_lng rb, rb_lat rb]
           \<and> lastUpdateTime b' = Some (now e)"
proof -
  from updateBusLocation_persisted [OF assms] obtain b eta
    where "findBusById (Bus d) i = Some b"
      and "db_after (updateBusLocation e d i rb)
             = d\<lparr>Bus := store_bus (relocated_bus e rb eta b) (Bus d)\<rparr>"
    by blast
  then have "findBusById (Bus (db_after (updateBusLocation e d i rb))) i
      = Some (relocated_bus e rb eta b)"
    by (simp add: findBusById_store relocated_bus_id findBusById_id)
  then show ?thesis
    by (simp add: relocated_bus_coordinates relocated_bus_time)
qed

text \<open>
  Claim C2 says that every successful position report, the end-of-route case included,
  leaves \<^verbatim>\<open>currentLocation\<close> at the reported position and \<^verbatim>\<open>lastUpdateTime\<close> at the time of
  the update. For the bus standing at the last stop C, with stored coordinates [0, 0] and
  \<^verbatim>\<open>lastUpdateTime\<close> 1000, the report (lat 3, lng 7) at time 2000 is answered with status
  200 and the reported position in the snapshot, and the database is what it was: the
  stored coordinates are still [0, 0] and \<^verbatim>\<open>lastUpdateTime\<close> is still 1000.
\<close>

theorem C2_terminal_report_not_recorded:
  "statusCode (response (updateBusLocation demo_env terminal_db ''bus1'' demo_report)) = 200
   \<and> map_option td_location
        (snapshot_of (response (updateBusLocation demo_env terminal_db ''bus1'' demo_report)))
       = Some \<lparr>lat = 3, lng = 7\<rparr>
   \<and> db_after (updateBusLocation demo_env terminal_db ''bus1'' demo_report) = terminal_db
   \<and> map_option (\<lambda>b. coordinates (currentLocation b))
        (findBusById (Bus (db_after (updateBusLocation demo_env terminal_db ''bus1'' demo_report)))
           ''bus1'')
       = Some [0, 0]
   \<and> map_option lastUpdateTime
        (findBusById (Bus (db_after (updateBusLocation demo_env terminal_db ''bus1'' demo_report)))
           ''bus1'')
       = Some (Some 1000)
   \<and> now demo_env = 2000"
  by (simp add: demo_defs location_defs)

section \<open>Authorization of updates\<close>

lemma not_on_route_not_assigned:
  "sid \<notin> set (route_stations b) \<Longrightarrow> \<not> assigned_to_station d b sid"
  by (auto simp: assigned_to_station_def route_stations_def list_ex_iff
      dest: populated_station_on_route split: option.splits)

lemma on_route_assigned:
  assumes "sid \<in> set (route_stations b)" and "findStationById (Station d) sid = Some s"
  shows "assigned_to_station d b sid"
proof -
  from assms(1) obtain r where r: "route b = Some r" "sid \<in> set (stations r)"
    by (cases "route b") (auto simp: route_stations_def)
  have "s \<in> set (populate_stations (Station d) ids)" if "sid \<in> set ids" for ids
    using that assms(2)
    by (induction ids) (auto simp: populate_stations_def split: option.splits)
  with r have "s \<in> set (populate_stations (Station d) (stations r))" by simp
  with r findStationById_id [OF assms(2)] show ?thesis
    by (auto simp: assigned_to_station_def list_ex_iff)
qed

text \<open>
  Claim C4. An update proposed by a station administrator for an existing bus whose route
  does not contain the administrator's station is answered with status 403, whatever the
  proposed fields are, and the database is unchanged; a bus that does not exist is answered
  with status 404, a different answer.
\<close>

theorem C4_scoped_actor_denied:
  assumes "role usr = ''STATION_ADMIN''"
    and "stationId usr = Some sid"
    and "findBusById (Bus d) i = Some b"
    and "sid \<notin> set (route_stations b)"
  shows "updateBus e d (Some usr) i updateData =
           \<lparr>response = Response 403
              (ErrorDetails ''Not authorized to update this bus''
                 ''This bus is not assigned to your station''),
            db_after = d, oracle_calls = []\<rparr>
       \<and> (\<forall>j. findBusById (Bus d) j = None \<longrightarrow>
             response (updateBus e d (Some usr) j updateData)
               = Response 404 (ErrorBody ''Bus not found''))
       \<and> Response 403
              (ErrorDetails ''Not authorized to update this bus''
                 ''This bus is not assigned to your station'')
           \<noteq> Response 404 (ErrorBody ''Bus not found'')"
  using assms not_on_route_not_assigned [OF assms(4), of d]
  by (simp add: updateBus_def)

theorem C4_witness:
  "role outsider_admin = ''STATION_ADMIN''
   \<and> stationId outsider_admin = Some ''StopZ''
   \<and> ''StopZ'' \<notin> set (route_stations demo_bus)
   \<and> statusCode (response (updateBus demo_env demo_db (Some outsider_admin) ''bus1''
        [(''status'', JStr ''ACTIVE'')])) = 403
   \<and> db_after (updateBus demo_env demo_db (Some outsider_admin) ''bus1''
        [(''status'', JStr ''ACTIVE'')]) = demo_db
   \<and> findBusById (Bus demo_db) ''bus9'' = None
   \<and> statusCode (response (updateBus demo_env demo_db (Some outsider_admin) ''bus9''
        [(''status'', JStr ''ACTIVE'')])) = 404"
proof -
  have r: "role outsider_admin = ''STATION_ADMIN''"
    and s: "stationId outsider_admin = Some ''StopZ''"
    by (simp_all add: outsider_admin_def)
  have off: "''StopZ'' \<notin> set (route_stations demo_bus)"
    by (simp add: route_stations_def demo_bus_def)
  have none: "findBusById (Bus demo_db) ''bus9'' = None"
    by (simp add: demo_db_def demo_bus_def findBusById_def)
  from C4_scoped_actor_denied [OF r s demo_bus_found off, of demo_env
      "[(''status'', JStr ''ACTIVE'')]"]
  show ?thesis using r s off none by simp
qed

lemma filtered_fold_map_of:
  "map_of (foldl (\<lambda>acc key.
              if field_allowed key
              then (case map_of updateData key of
                      Some v \<Rightarrow> AList.update key v acc
                    | None \<Rightarrow> acc)
              else acc) acc ks) k
   = (if k \<in> set ks \<and> field_allowed k \<and> map_of updateData k \<noteq> None
      then map_of updateData k else map_of acc k)"
  by (induction ks arbitrary: acc) (auto simp: update_conv' split: option.splits)

lemma map_of_filteredUpdateData:
  "map_of (filteredUpdateData updateData) = map_of updateData |` {key. field_allowed key}"
proof
  fix k
  have "k \<in> set (map fst updateData) \<longleftrightarrow> map_of updateData k \<noteq> None"
    by (simp add: map_of_eq_None_iff)
  then show "map_of (filteredUpdateData updateData) k
        = (map_of updateData |` {key. field_allowed key}) k"
    unfolding filteredUpdateData_def filtered_fold_map_of
    by (auto simp: restrict_map_def)
qed

lemma keys_filteredUpdateData:
  "fst ` set (filteredUpdateData updateData) = {key \<in> fst ` set updateData. field_allowed key}"
proof -
  have "fst ` set (filteredUpdateData updateData) = dom (map_of (filteredUpdateData updateData))"
    by (simp add: dom_map_of_conv_image_fst)
  also have "\<dots> = dom (map_of updateData) \<inter> {key. field_allowed key}"
    by (simp add: map_of_filteredUpdateData)
  also have "\<dots> = {key \<in> fst ` set updateData. field_allowed key}"
    by (auto simp: dom_map_of_conv_image_fst)
  finally show ?thesis .
qed

lemma demo_filtered:
  "filteredUpdateData demo_fields
     = [(''status'', JStr ''INACTIVE''), (''schedule.departureTime'', JStr ''10:00'')]"
  by (simp add: filteredUpdateData_def demo_fields_def field_allowed_def allowedFields_def
      startsWith_def)

lemma station_admin_assigned: "assigned_to_station demo_db demo_bus ''StopB''"
  by (simp add: assigned_to_station_def demo_db_def demo_bus_def stopA_def stopB_def stopC_def
      populate_stations_def findStationById_def)

text \<open>
  Claim C5. For a station administrator who passes the check of line 116 (the populated
  route of the bus has the administrator's station), the update handed to
  \<^verbatim>\<open>findByIdAndUpdate\<close> has exactly the proposed keys that are \<^verbatim>\<open>status\<close>, \<^verbatim>\<open>schedule\<close> or
  \<^verbatim>\<open>route.estimatedTime\<close> or start with \<^verbatim>\<open>schedule.\<close> or \<^verbatim>\<open>route.\<close>, each with its proposed
  value; the other keys are dropped without an error of their own, and the update is
  applied also when nothing is left.
\<close>

theorem C5_scoped_actor_filtered:
  assumes "role usr = ''STATION_ADMIN''"
    and "stationId usr = Some sid"
    and "findBusById (Bus d) i = Some b"
    and "assigned_to_station d b sid"
  shows "updateBus e d (Some usr) i updateData = applyUpdate e d i (filteredUpdateData updateData)
       \<and> fst ` set (filteredUpdateData updateData) =
           {key \<in> fst ` set updateData.
              key = ''status'' \<or> key = ''schedule'' \<or> key = ''route.estimatedTime''
              \<or> startsWith key ''schedule.'' \<or> startsWith key ''route.''}
       \<and> (\<forall>key \<in> fst ` set (filteredUpdateData updateData).
             map_of (filteredUpdateData updateData) key = map_of updateData key)
       \<and> (filteredUpdateData updateData = [] \<longrightarrow>
             updateBus e d (Some usr) i updateData = applyUpdate e d i [])"
proof -
  have run: "updateBus e d (Some usr) i updateData
      = applyUpdate e d i (filteredUpdateData updateData)"
    using assms by (simp add: updateBus_def)
  have keys: "fst ` set (filteredUpdateData updateData) =
           {key \<in> fst ` set updateData.
              key = ''status'' \<or> key = ''schedule'' \<or> key = ''route.estimatedTime''
              \<or> startsWith key ''schedule.'' \<or> startsWith key ''route.''}"
    unfolding keys_filteredUpdateData by (auto simp: field_allowed_def allowedFields_def)
  have vals: "\<forall>key \<in> fst ` set (filteredUpdateData updateData).
             map_of (filteredUpdateData updateData) key = map_of updateData key"
    unfolding keys_filteredUpdateData by (simp add: map_of_filteredUpdateData)
  from run keys vals show ?thesis by simp
qed

theorem C5_witness:
  "role station_admin = ''STATION_ADMIN''
   \<and> stationId station_admin = Some ''StopB''
   \<and> assigned_to_station demo_db demo_bus ''StopB''
   \<and> updateBus demo_env demo_db (Some station_admin) ''bus1'' demo_fields
       = applyUpdate demo_env demo_db ''bus1''
           [(''status'', JStr ''INACTIVE''), (''schedule.departureTime'', JStr ''10:00'')]
   \<and> updateBus demo_env demo_db (Some station_admin) ''bus1'' [(''capacity'', JNum 99)]
       = applyUpdate demo_env demo_db ''bus1'' []"
proof -
  have r: "role station_admin = ''STATION_ADMIN''"
    and s: "stationId station_admin = Some ''StopB''"
    by (simp_all add: station_admin_def)
  have dropped: "filteredUpdateData [(''capacity'', JNum 99)] = []"
    by (simp add: filteredUpdateData_def field_allowed_def allowedFields_def startsWith_def)
  from C5_scoped_actor_filtered [OF r s demo_bus_found station_admin_assigned,
      of demo_env demo_fields]
    C5_scoped_actor_filtered [OF r s demo_bus_found station_admin_assigned,
      of demo_env "[(''capacity'', JNum 99)]"]
  show ?thesis using r s station_admin_assigned demo_filtered dropped by simp
qed

text \<open>
  Claim C8. For a user whose role is not \<^verbatim>\<open>STATION_ADMIN\<close>, \<^verbatim>\<open>updateBus\<close> hands the
  proposed fields to \<^verbatim>\<open>findByIdAndUpdate\<close> as they are: the outcome is that of applying the
  unfiltered update, which depends neither on the user's station nor on the route.
\<close>

theorem C8_unrestricted_passes_through:
  assumes "role usr \<noteq> ''STATION_ADMIN''"
  shows "updateBus e d (Some usr) i updateData = applyUpdate e d i updateData"
  using assms by (simp add: updateBus_def)

theorem C8_witness:
  "role system_admin \<noteq> ''STATION_ADMIN''
   \<and> updateBus demo_env demo_db (Some system_admin) ''bus1'' demo_fields
       = applyUpdate demo_env demo_db ''bus1'' demo_fields
   \<and> mongo_update demo_env demo_fields = demo_update demo_fields"
proof -
  have r: "role system_admin \<noteq> ''STATION_ADMIN''"
    by (simp add: system_admin_def)
  from C8_unrestricted_passes_through [OF r, of demo_env demo_db "''bus1''" demo_fields]
  show ?thesis using r by (simp add: demo_env_def)
qed

section \<open>Reading the position back\<close>

lemma getBusTrackingInfo_location:
  assumes "response (getBusTrackingInfo e d i) = Response c (TrackingInfoBody ti)"
    and "findBusById (Bus d) i = Some b"
  shows "ti_currentLocation ti = latlng_of_geo (currentLocation b)"
  using assms
  by (auto simp: getBusTrackingInfo_def Let_def failed_tracking_info_def
      split: option.splits sum.splits)

lemma demo_moved:
  "db_after (updateBusLocation demo_env demo_db ''bus1'' demo_report)
     = demo_db\<lparr>Bus := [relocated_bus demo_env demo_report 300 demo_bus]\<rparr>"
  by (simp add: demo_defs location_defs)

text \<open>
  Claim C9. When \<^verbatim>\<open>updateBusLocation\<close> saves a report (its answer names a next station),
  the stored coordinates are \<^verbatim>\<open>[lng, lat]\<close>; every answer of \<^verbatim>\<open>getBusTrackingInfo\<close> for the
  bus then carries the reported \<^verbatim>\<open>{lat, lng}\<close> as \<^verbatim>\<open>currentLocation\<close>, and so does the entry
  of the bus in the list answered by \<^verbatim>\<open>getBusLocations\<close> to a user whose station the bus
  serves.
\<close>

theorem C9_position_round_trip:
  assumes "response (updateBusLocation e d i rb) = Response 200 (TrackingDataBody snap)"
    and "td_nextStation snap = Some n"
  shows "\<exists>b'. findBusById (Bus (db_after (updateBusLocation e d i rb))) i = Some b'
           \<and> coordinates (currentLocation b') = [rb_lng rb, rb_lat rb]
           \<and> (\<forall>e' c ti. response (getBusTrackingInfo e' (db_after (updateBusLocation e d i rb)) i)
                           = Response c (TrackingInfoBody ti)
                 \<longrightarrow> ti_currentLocation ti = \<lparr>lat = Some (rb_lat rb), lng = Some (rb_lng rb)\<rparr>)
           \<and> loc_location (bus_location_of b') = \<lparr>lat = Some (rb_lat rb), lng = Some (rb_lng rb)\<rparr>
           \<and> (\<forall>usr sid. stationId usr = Some sid \<and> serves_station sid b'
                 \<longrightarrow> bus_location_of b'
                       \<in> set (locations_of (response
                           (getBusLocations (db_after (updateBusLocation e d i rb)) (Some usr)))))"
proof -
  from updateBusLocation_persisted [OF assms] obtain b eta
    where found: "findBusById (Bus d) i = Some b"
      and after: "db_after (updateBusLocation e d i rb)
                    = d\<lparr>Bus := store_bus (relocated_bus e rb eta b) (Bus d)\<rparr>"
    by blast
  let ?b' = "relocated_bus e rb eta b"
  let ?d' = "db_after (updateBusLocation e d i rb)"
  have stored: "findBusById (Bus ?d') i = Some ?b'"
    using found after by (simp add: findBusById_store relocated_bus_id findBusById_id)
  have info: "\<forall>e' c ti. response (getBusTrackingInfo e' ?d' i) = Response c (TrackingInfoBody ti)
                 \<longrightarrow> ti_currentLocation ti = \<lparr>lat = Some (rb_lat rb), lng = Some (rb_lng rb)\<rparr>"
    using getBusTrackingInfo_location [OF _ stored] by (simp add: relocated_bus_read_back)
  have entry: "loc_location (bus_location_of ?b')
      = \<lparr>lat = Some (rb_lat rb), lng = Some (rb_lng rb)\<rparr>"
    by (simp add: bus_location_of_def relocated_bus_read_back)
  have listed: "\<forall>usr sid. stationId usr = Some sid \<and> serves_station sid ?b'
                 \<longrightarrow> bus_location_of ?b'
                       \<in> set (locations_of (response (getBusLocations ?d' (Some usr))))"
    using findBusById_mem [OF stored] by (auto simp: getBusLocations_def)
  from stored info entry listed show ?thesis
    by (intro exI [of _ ?b']) (simp add: relocated_bus_coordinates)
qed

theorem C9_witness:
  "map_option td_nextStation
      (snapshot_of (response (updateBusLocation demo_env demo_db ''bus1'' demo_report)))
     = Some (Some ''StopC'')
   \<and> map_option (\<lambda>b. coordinates (currentLocation b))
        (findBusById (Bus (db_after (updateBusLocation demo_env demo_db ''bus1'' demo_report)))
           ''bus1'')
       = Some [7, 3]
   \<and> map_option ti_currentLocation
        (tracking_info_of (response (getBusTrackingInfo demo_env
           (db_after (updateBusLocation demo_env demo_db ''bus1'' demo_report)) ''bus1'')))
       = Some \<lparr>lat = Some 3, lng = Some 7\<rparr>
   \<and> map loc_location
        (locations_of (response (getBusLocations
           (db_after (updateBusLocation demo_env demo_db ''bus1'' demo_report))
           (Some station_admin))))
       = [\<lparr>lat = Some 3, lng = Some 7\<rparr>]"
proof -
  let ?d' = "db_after (updateBusLocation demo_env demo_db ''bus1'' demo_report)"
  have answered: "response (updateBusLocation demo_env demo_db ''bus1'' demo_report)
      = Response 200 (TrackingDataBody
          ((initial_trackingData ''bus1'' demo_report demo_bus)
             \<lparr>td_nextStation := Some ''StopC'', td_eta := Some 5,
              td_distanceToNext := Some 1500\<rparr>))"
    by (simp add: demo_defs location_defs Math_round_def)
  have nxt: "td_nextStation ((initial_trackingData ''bus1'' demo_report demo_bus)
             \<lparr>td_nextStation := Some ''StopC'', td_eta := Some 5,
              td_distanceToNext := Some 1500\<rparr>) = Some ''StopC''"
    by simp
  have info: "\<exists>ti. response (getBusTrackingInfo demo_env ?d' ''bus1'')
                = Response 200 (TrackingInfoBody ti)"
    unfolding demo_moved by (simp add: demo_defs location_defs info_defs)
  have one: "length (locations_of (response (getBusLocations ?d' (Some station_admin)))) = 1"
    unfolding demo_moved
    by (simp add: demo_defs station_admin_def relocated_bus_def getBusLocations_def
        serves_station_def)
  have serves: "serves_station ''StopB'' (relocated_bus demo_env demo_report 300 demo_bus)"
    by (simp add: demo_defs relocated_bus_def serves_station_def)
  have sid: "stationId station_admin = Some ''StopB''"
    by (simp add: station_admin_def)
  from C9_position_round_trip [OF answered nxt] obtain b'
    where stored: "findBusById (Bus ?d') ''bus1'' = Some b'"
      and coords: "coordinates (currentLocation b') = [rb_lng demo_report, rb_lat demo_report]"
      and read: "\<forall>e' c ti. response (getBusTrackingInfo e' ?d' ''bus1'')
                           = Response c (TrackingInfoBody ti)
                 \<longrightarrow> ti_currentLocation ti
                       = \<lparr>lat = Some (rb_lat demo_report), lng = Some (rb_lng demo_report)\<rparr>"
      and entry: "loc_location (bus_location_of b')
                    = \<lparr>lat = Some (rb_lat demo_report), lng = Some (rb_lng demo_report)\<rparr>"
      and listed: "\<forall>usr sid. stationId usr = Some sid \<and> serves_station sid b'
                 \<longrightarrow> bus_location_of b'
                       \<in> set (locations_of (response (getBusLocations ?d' (Some usr))))"
    by blast
  from stored have b': "b' = relocated_bus demo_env demo_report 300 demo_bus"
    unfolding demo_moved by (simp add: findBusById_def relocated_bus_def demo_bus_def)
  from listed sid serves b'
  have "bus_location_of b'
      \<in> set (locations_of (response (getBusLocations ?d' (Some station_admin))))"
    by blast
  with one have ls: "locations_of (response (getBusLocations ?d' (Some station_admin)))
      = [bus_location_of b']"
    by (cases "locations_of (response (getBusLocations ?d' (Some station_admin)))") auto
  from info read obtain ti where
    "response (getBusTrackingInfo demo_env ?d' ''bus1'') = Response 200 (TrackingInfoBody ti)"
    "ti_currentLocation ti = \<lparr>lat = Some (rb_lat demo_report), lng = Some (rb_lng demo_report)\<rparr>"
    by blast
  with answered stored coords entry ls show ?thesis
    by (simp add: demo_report_def)
qed

section \<open>Creating a bus\<close>

text \<open>
  Claim C10. A \<^verbatim>\<open>createBus\<close> request whose four required fields pass the test of line 33
  (non-empty strings, a non-zero capacity) and whose document is saved is answered with
  status 201 and the new bus: it has the four supplied values; its route is the supplied
  one or else the empty station list with \<^verbatim>\<open>estimatedTime\<close> 0; its status is the supplied
  non-empty one or else \<^verbatim>\<open>INACTIVE\<close>; and whatever the request holds, its
  \<^verbatim>\<open>currentLocation\<close> is the point [0, 0], its \<^verbatim>\<open>currentPassengerCount\<close> is 0 and
  \<^verbatim>\<open>isOnRoute\<close> is false.
\<close>

theorem C10_created_bus_defaults:
  assumes "rq_busNumber rq = Some bn" and "bn \<noteq> []"
    and "rq_routeNumber rq = Some rn" and "rn \<noteq> []"
    and "rq_capacity rq = Some cap" and "cap \<noteq> 0"
    and "rq_deviceId rq = Some dev" and "dev \<noteq> []"
    and "save e (new_bus e rq bn rn cap dev) = None"
  shows "\<exists>b. createBus e d rq =
               \<lparr>response = Response 201 (BusBody b), db_after = d\<lparr>Bus := Bus d @ [b]\<rparr>,
                oracle_calls = []\<rparr>
           \<and> busNumber b = bn \<and> routeNumber b = rn \<and> capacity b = cap \<and> deviceId b = dev
           \<and> route b = (case rq_route rq of
                           None \<Rightarrow> Some \<lparr>stations = [], estimatedTime = 0\<rparr>
                         | Some r \<Rightarrow> Some r)
           \<and> status b = (case rq_status rq of
                            None \<Rightarrow> ''INACTIVE''
                          | Some s \<Rightarrow> if s = [] then ''INACTIVE'' else s)
           \<and> currentLocation b = \<lparr>geo_type = ''Point'', coordinates = [0, 0]\<rparr>
           \<and> currentPassengerCount b = 0
           \<and> \<not> isOnRoute b"
  using assms
  by (auto simp: createBus_def new_bus_def Let_def split: option.splits)

theorem C10_witness:
  "rq_busNumber demo_request = Some ''B-2'' \<and> rq_routeNumber demo_request = Some ''R-2''
   \<and> rq_capacity demo_request = Some 52 \<and> rq_deviceId demo_request = Some ''dev-2''
   \<and> statusCode (response (createBus demo_env demo_db demo_request)) = 201
   \<and> map_option route (created_bus_of (response (createBus demo_env demo_db demo_request)))
       = Some (Some \<lparr>stations = [], estimatedTime = 0\<rparr>)
   \<and> map_option status (created_bus_of (response (createBus demo_env demo_db demo_request)))
       = Some ''INACTIVE''
   \<and> map_option (\<lambda>b. coordinates (currentLocation b))
        (created_bus_of (response (createBus demo_env demo_db demo_request)))
       = Some [0, 0]
   \<and> map_option currentPassengerCount
        (created_bus_of (response (createBus demo_env demo_db demo_request))) = Some 0
   \<and> map_option isOnRoute
        (created_bus_of (response (createBus demo_env demo_db demo_request))) = Some False"
proof -
  have f: "rq_busNumber demo_request = Some ''B-2''" "''B-2'' \<noteq> []"
    "rq_routeNumber demo_request = Some ''R-2''" "''R-2'' \<noteq> []"
    "rq_capacity demo_request = Some 52" "(52::real) \<noteq> 0"
    "rq_deviceId demo_request = Some ''dev-2''" "''dev-2'' \<noteq> []"
    by (simp_all add: demo_request_def)
  have saved: "save demo_env (new_bus demo_env demo_request ''B-2'' ''R-2'' 52 ''dev-2'') = None"
    by (simp add: demo_env_def)
  have opt: "rq_route demo_request = None" "rq_status demo_request = None"
    by (simp_all add: demo_request_def)
  from C10_created_bus_defaults [OF f saved, of demo_db]
  show ?thesis using f opt by auto
qed

end
